theory Spec2Isabelle
  imports Complex_Main "HOL-Library.Sublist"
begin

section \<open>JavaScript values\<close>

text \<open>
  A JavaScript number is a finite value or one of \<open>NaN\<close>, \<open>Infinity\<close>, \<open>-Infinity\<close>.
  A finite number is identified with the decimal fraction that \<open>Number.prototype.toString\<close>
  prints for it (the shortest decimal that reads back as the same double), so comparisons,
  \<open>Number.isInteger\<close> and \<open>toString\<close> are those of the program; sums and products are
  computed exactly, without the binary rounding of IEEE doubles; the sign of zero is
  not represented.
\<close>

datatype jsnum = Num rat | NaN | PosInf | NegInf

text \<open>
  The values a parsed JSON request body can hold, and \<open>undefined\<close> for a missing field.
  An object is its list of own properties.
\<close>

datatype jsval =
    JUndefined
  | JNull
  | JBool bool
  | JNum jsnum
  | JStr string
  | JArr "jsval list"
  | JObj "(string \<times> jsval) list"

text \<open>
  What a handler can throw: a \<open>TypeError\<close> of the language (a property read on
  \<open>undefined\<close> or \<open>null\<close>, a call of something that is not a function), or the
  \<open>ApiError(message, statusCode, details)\<close> of the middleware.
\<close>

datatype error = TypeError | ApiError string nat "string list"

fun truthy :: "jsval \<Rightarrow> bool" where
  "truthy JUndefined = False"
| "truthy JNull = False"
| "truthy (JBool b) = b"
| "truthy (JNum (Num x)) = (x \<noteq> 0)"
| "truthy (JNum NaN) = False"
| "truthy (JNum PosInf) = True"
| "truthy (JNum NegInf) = True"
| "truthy (JStr s) = (s \<noteq> [])"
| "truthy (JArr xs) = True"
| "truthy (JObj kvs) = True"

subsection \<open>Numbers\<close>

fun js_lt :: "jsnum \<Rightarrow> jsnum \<Rightarrow> bool" where
  "js_lt (Num a) (Num b) = (a < b)"
| "js_lt (Num a) PosInf = True"
| "js_lt NegInf (Num b) = True"
| "js_lt NegInf PosInf = True"
| "js_lt a b = False"

definition js_le :: "jsnum \<Rightarrow> jsnum \<Rightarrow> bool" where
  "js_le a b = (a \<noteq> NaN \<and> b \<noteq> NaN \<and> \<not> js_lt b a)"

definition js_ge :: "jsnum \<Rightarrow> jsnum \<Rightarrow> bool" where
  "js_ge a b = js_le b a"

fun js_neg :: "jsnum \<Rightarrow> jsnum" where
  "js_neg (Num a) = Num (- a)"
| "js_neg NaN = NaN"
| "js_neg PosInf = NegInf"
| "js_neg NegInf = PosInf"

fun js_add :: "jsnum \<Rightarrow> jsnum \<Rightarrow> jsnum" where
  "js_add (Num a) (Num b) = Num (a + b)"
| "js_add NaN b = NaN"
| "js_add a NaN = NaN"
| "js_add PosInf NegInf = NaN"
| "js_add NegInf PosInf = NaN"
| "js_add PosInf b = PosInf"
| "js_add NegInf b = NegInf"
| "js_add (Num a) b = b"

fun js_mul :: "jsnum \<Rightarrow> jsnum \<Rightarrow> jsnum" where
  "js_mul (Num a) (Num b) = Num (a * b)"
| "js_mul NaN b = NaN"
| "js_mul a NaN = NaN"
| "js_mul PosInf (Num b) = (if b = 0 then NaN else if 0 < b then PosInf else NegInf)"
| "js_mul NegInf (Num b) = (if b = 0 then NaN else if 0 < b then NegInf else PosInf)"
| "js_mul (Num a) b = (if a = 0 then NaN else if 0 < a then b else js_neg b)"
| "js_mul PosInf b = b"
| "js_mul NegInf b = js_neg b"

text \<open>Division by a finite divisor other than zero, the only one the program performs.\<close>

fun js_div :: "jsnum \<Rightarrow> rat \<Rightarrow> jsnum" where
  "js_div (Num a) d = Num (a / d)"
| "js_div NaN d = NaN"
| "js_div PosInf d = (if 0 < d then PosInf else NegInf)"
| "js_div NegInf d = (if 0 < d then NegInf else PosInf)"

text \<open>\<open>Math.round\<close>: the nearest integer, a tie going up (towards \<open>+Infinity\<close>).\<close>

fun Math_round :: "jsnum \<Rightarrow> jsnum" where
  "Math_round (Num a) = Num (of_int \<lfloor>a + 1 / 2\<rfloor>)"
| "Math_round n = n"


text \<open>
  \<open>ToNumber\<close>, the conversion behind \<open><\<close> and \<open>>=\<close> when one side is a number.
  On \<open>undefined\<close>, \<open>null\<close>, booleans and numbers it is the language's table. On a string,
  an array or an object it parses text or calls \<open>valueOf\<close>/\<open>toString\<close> (and can throw);
  that part of the language is the parameter \<open>coerce\<close>, and nothing is assumed of it.
\<close>

fun ToNumber :: "(jsval \<Rightarrow> error + jsnum) \<Rightarrow> jsval \<Rightarrow> error + jsnum" where
  "ToNumber coerce JUndefined = Inr NaN"
| "ToNumber coerce JNull = Inr (Num 0)"
| "ToNumber coerce (JBool b) = Inr (Num (if b then 1 else 0))"
| "ToNumber coerce (JNum n) = Inr n"
| "ToNumber coerce v = coerce v"

subsection \<open>Strings\<close>

text \<open>
  Strings are lists of 8-bit characters. The white space that \<open>trim\<close> strips and
  \<open>\s\<close> matches is, in that range: tab, line feed, vertical tab, form feed, carriage
  return, space and no-break space.
\<close>

definition is_space :: "char \<Rightarrow> bool" where
  "is_space c = (of_char c \<in> {9, 10, 11, 12, 13, 32, 160 :: nat})"

definition trim :: "string \<Rightarrow> string" where
  "trim s = rev (dropWhile is_space (rev (dropWhile is_space s)))"

text \<open>\<open>toLowerCase\<close> on the letters A to Z.\<close>

definition lower_char :: "char \<Rightarrow> char" where
  "lower_char c = (if 65 \<le> (of_char c :: nat) \<and> (of_char c :: nat) \<le> 90
                   then char_of (of_char c + 32 :: nat) else c)"

definition toLowerCase :: "string \<Rightarrow> string" where
  "toLowerCase s = map lower_char s"

text \<open>\<open>Array.prototype.join\<close> on strings.\<close>

fun join :: "string \<Rightarrow> string list \<Rightarrow> string" where
  "join sep [] = []"
| "join sep [x] = x"
| "join sep (x # y # ys) = x @ sep @ join sep (y # ys)"

text \<open>Decimal digits of a natural number, as a template literal prints an index.\<close>

definition digit_char :: "nat \<Rightarrow> char" where
  "digit_char d = ''0123456789'' ! d"

fun digits :: "nat \<Rightarrow> string" where
  "digits n = (if n < 10 then [digit_char n] else digits (n div 10) @ [digit_char (n mod 10)])"

declare digits.simps [simp del]

subsection \<open>Number.prototype.toString\<close>

text \<open>
  The digits after the decimal point of a fraction \<open>0 \<le> f < 1\<close>, until the expansion
  ends. No double needs more than 400 places; the expansion of a rational that never
  ends is cut there.
\<close>

fun frac_digits :: "nat \<Rightarrow> rat \<Rightarrow> string" where
  "frac_digits 0 f = []"
| "frac_digits (Suc fuel) f =
     (if f = 0 then []
      else digit_char (nat \<lfloor>f * 10\<rfloor>) # frac_digits fuel (f * 10 - of_int \<lfloor>f * 10\<rfloor>))"

definition strip_zeros :: "string \<Rightarrow> string" where
  "strip_zeros ds = rev (dropWhile (\<lambda>c. c = CHR ''0'') (rev ds))"

text \<open>
  The exponent form \<open>d.ddde\<plusminus>x\<close> of the significant digits \<open>ds\<close> (no leading or
  trailing zero) with decimal exponent \<open>ex\<close>.
\<close>

definition exponent_form :: "string \<Rightarrow> int \<Rightarrow> string" where
  "exponent_form ds ex =
     (case ds of
        [] \<Rightarrow> []
      | d # rest \<Rightarrow>
          d # (if rest = [] then [] else CHR ''.'' # rest)
            @ ''e'' @ (if 0 \<le> ex then ''+'' else ''-'') @ digits (nat \<bar>ex\<bar>))"

text \<open>
  A positive number: positional notation from \<open>10\<^sup>-\<^sup>6\<close> up to, not including, \<open>10\<^sup>2\<^sup>1\<close>,
  the exponent form outside.
\<close>

definition positive_toString :: "rat \<Rightarrow> string" where
  "positive_toString x =
     (let int_part = digits (nat \<lfloor>x\<rfloor>);
          frac_part = frac_digits 400 (x - of_int \<lfloor>x\<rfloor>)
      in if 10 ^ 21 \<le> x
         then exponent_form (strip_zeros (int_part @ frac_part)) (int (length int_part) - 1)
         else if x < 1 / 10 ^ 6
         then exponent_form (dropWhile (\<lambda>c. c = CHR ''0'') frac_part)
                (- int (length (takeWhile (\<lambda>c. c = CHR ''0'') frac_part)) - 1)
         else int_part @ (if frac_part = [] then [] else CHR ''.'' # frac_part))"

fun Number_toString :: "jsnum \<Rightarrow> string" where
  "Number_toString NaN = ''NaN''"
| "Number_toString PosInf = ''Infinity''"
| "Number_toString NegInf = ''-Infinity''"
| "Number_toString (Num x) =
     (if x = 0 then ''0''
      else if x < 0 then CHR ''-'' # positive_toString (- x)
      else positive_toString x)"

section \<open>Regular expressions\<close>

text \<open>
  The patterns of the program use character classes, concatenation, alternation by
  \<open>?\<close>, the repetitions \<open>*\<close>, \<open>+\<close> and \<open>{m,n}\<close>, and are anchored at both ends by
  \<open>^\<close> and \<open>$\<close>: \<open>test\<close> asks whether the whole string is in the pattern's language.
  The matcher takes derivatives of the pattern, character by character.
\<close>

datatype rexp =
    Zero
  | One
  | Atom "char \<Rightarrow> bool"
  | Plus rexp rexp
  | Times rexp rexp
  | Star rexp

fun nullable :: "rexp \<Rightarrow> bool" where
  "nullable Zero = False"
| "nullable One = True"
| "nullable (Atom p) = False"
| "nullable (Plus r s) = (nullable r \<or> nullable s)"
| "nullable (Times r s) = (nullable r \<and> nullable s)"
| "nullable (Star r) = True"

fun deriv :: "char \<Rightarrow> rexp \<Rightarrow> rexp" where
  "deriv c Zero = Zero"
| "deriv c One = Zero"
| "deriv c (Atom p) = (if p c then One else Zero)"
| "deriv c (Plus r s) = Plus (deriv c r) (deriv c s)"
| "deriv c (Times r s) =
     (if nullable r then Plus (Times (deriv c r) s) (deriv c s) else Times (deriv c r) s)"
| "deriv c (Star r) = Times (deriv c r) (Star r)"

fun regex_test :: "rexp \<Rightarrow> string \<Rightarrow> bool" where
  "regex_test r [] = nullable r"
| "regex_test r (c # cs) = regex_test (deriv c r) cs"

text \<open>\<open>r+\<close>, \<open>r?\<close> and \<open>r{m,n}\<close>.\<close>

definition many1 :: "rexp \<Rightarrow> rexp" where
  "many1 r = Times r (Star r)"

definition opt :: "rexp \<Rightarrow> rexp" where
  "opt r = Plus One r"

fun exactly :: "nat \<Rightarrow> rexp \<Rightarrow> rexp" where
  "exactly 0 r = One"
| "exactly (Suc n) r = Times r (exactly n r)"

fun at_most :: "nat \<Rightarrow> rexp \<Rightarrow> rexp" where
  "at_most 0 r = One"
| "at_most (Suc n) r = Plus One (Times r (at_most n r))"

definition between :: "nat \<Rightarrow> nat \<Rightarrow> rexp \<Rightarrow> rexp" where
  "between m n r = Times (exactly m r) (at_most (n - m) r)"

text \<open>The classes \<open>\d\<close> and \<open>\w\<close>, and a literal character.\<close>

definition is_digit :: "char \<Rightarrow> bool" where
  "is_digit c = (48 \<le> (of_char c :: nat) \<and> (of_char c :: nat) \<le> 57)"

definition is_word :: "char \<Rightarrow> bool" where
  "is_word c =
     (let n = (of_char c :: nat)
      in (65 \<le> n \<and> n \<le> 90) \<or> (97 \<le> n \<and> n \<le> 122) \<or> (48 \<le> n \<and> n \<le> 57) \<or> n = 95)"

definition lit :: "char \<Rightarrow> rexp" where
  "lit c = Atom (\<lambda>x. x = c)"

text \<open>The language of a pattern, which the matcher decides.\<close>

definition conc :: "string set \<Rightarrow> string set \<Rightarrow> string set" where
  "conc A B = {xs @ ys | xs ys. xs \<in> A \<and> ys \<in> B}"

inductive_set star :: "string set \<Rightarrow> string set" for A :: "string set" where
  star_empty: "[] \<in> star A"
| star_more: "xs \<in> A \<Longrightarrow> ys \<in> star A \<Longrightarrow> xs @ ys \<in> star A"

fun lang :: "rexp \<Rightarrow> string set" where
  "lang Zero = {}"
| "lang One = {[]}"
| "lang (Atom p) = {[c] | c. p c}"
| "lang (Plus r s) = lang r \<union> lang s"
| "lang (Times r s) = conc (lang r) (lang s)"
| "lang (Star r) = star (lang r)"

text \<open>Every character class of a pattern lies within \<open>P\<close>.\<close>

fun atoms_all :: "(char \<Rightarrow> bool) \<Rightarrow> rexp \<Rightarrow> bool" where
  "atoms_all P Zero = True"
| "atoms_all P One = True"
| "atoms_all P (Atom p) = (\<forall>c. p c \<longrightarrow> P c)"
| "atoms_all P (Plus r s) = (atoms_all P r \<and> atoms_all P s)"
| "atoms_all P (Times r s) = (atoms_all P r \<and> atoms_all P s)"
| "atoms_all P (Star r) = atoms_all P r"

section \<open>Validation results (types/index.ts)\<close>

record ValidationError =
  field :: string
  message :: string

record ValidationResult =
  valid :: bool
  errors :: "ValidationError list"

definition err :: "string \<Rightarrow> string \<Rightarrow> ValidationError" where
  "err f m = \<lparr>field = f, message = m\<rparr>"

text \<open>The \<open>return {valid: errors.length === 0, errors}\<close> that ends every validator.\<close>

definition result :: "ValidationError list \<Rightarrow> ValidationResult" where
  "result es = \<lparr>valid = (length es = 0), errors = es\<rparr>"

subsection \<open>Reading untyped values\<close>

text \<open>
  \<open>v.k\<close> for the property names the validators read (\<open>length\<close> and the field names of
  the request types, none of which a prototype defines): a \<open>TypeError\<close> on \<open>undefined\<close>
  and \<open>null\<close>, the own property of an object, the length of a string or an array, and
  \<open>undefined\<close> otherwise.
\<close>

definition own :: "(string \<times> jsval) list \<Rightarrow> string \<Rightarrow> jsval" where
  "own kvs k = (case map_of kvs k of None \<Rightarrow> JUndefined | Some v \<Rightarrow> v)"

fun get_prop :: "jsval \<Rightarrow> string \<Rightarrow> error + jsval" where
  "get_prop JUndefined k = Inl TypeError"
| "get_prop JNull k = Inl TypeError"
| "get_prop (JObj kvs) k = Inr (own kvs k)"
| "get_prop (JStr s) k = Inr (if k = ''length'' then JNum (Num (of_nat (length s))) else JUndefined)"
| "get_prop (JArr xs) k = Inr (if k = ''length'' then JNum (Num (of_nat (length xs))) else JUndefined)"
| "get_prop v k = Inr JUndefined"

text \<open>\<open>xs.includes(v)\<close> on an array of strings: \<open>v\<close> is a string and equals an element.\<close>

definition array_includes :: "string list \<Rightarrow> jsval \<Rightarrow> bool" where
  "array_includes xs v = (v \<in> set (map JStr xs))"

text \<open>Sequencing: an exception ends the computation.\<close>

definition and_then :: "error + 'a \<Rightarrow> ('a \<Rightarrow> error + 'b) \<Rightarrow> error + 'b" where
  "and_then m f = (case m of Inl e \<Rightarrow> Inl e | Inr x \<Rightarrow> f x)"

text \<open>
  A call of a string method such as \<open>v.trim()\<close> on a value that is not \<open>undefined\<close> or
  \<open>null\<close>: only a string has the method, and calling what is not a function is a
  \<open>TypeError\<close>.
\<close>

definition on_string :: "jsval \<Rightarrow> (string \<Rightarrow> error + 'a) \<Rightarrow> error + 'a" where
  "on_string v f = (case v of JStr s \<Rightarrow> f s | _ \<Rightarrow> Inl TypeError)"

text \<open>
  The checks of a validator run one after the other, each pushing its errors onto the
  same list; the first exception ends the run.
\<close>

fun collect :: "(error + ValidationError list) list \<Rightarrow> error + ValidationError list" where
  "collect [] = Inr []"
| "collect (c # cs) =
     and_then c (\<lambda>es. and_then (collect cs) (\<lambda>es'. Inr (es @ es')))"

section \<open>utils/validation.ts\<close>

subsection \<open>isValidEmail, isValidPhone, isValidPassword\<close>

text \<open>\<open>\w+([.-]?\w+)*\<close>, which the e-mail pattern uses on both sides of the \<open>@\<close>.\<close>

definition dotted_words :: rexp where
  "dotted_words =
     Times (many1 (Atom is_word))
       (Star (Times (opt (Atom (\<lambda>c. c = CHR ''.'' \<or> c = CHR ''-''))) (many1 (Atom is_word))))"

text \<open>\<open>(\.\w{2,3})+\<close>\<close>

definition tld_groups :: rexp where
  "tld_groups = many1 (Times (lit CHR ''.'') (between 2 3 (Atom is_word)))"

definition emailRegex :: rexp where
  "emailRegex = Times dotted_words (Times (lit CHR ''@'') (Times dotted_words tld_groups))"

definition isValidEmail :: "string \<Rightarrow> bool" where
  "isValidEmail email = regex_test emailRegex email"




text \<open>\<open>password.length >= 6\<close>, on whatever the caller passes.\<close>

definition isValidPassword :: "(jsval \<Rightarrow> error + jsnum) \<Rightarrow> jsval \<Rightarrow> error + bool" where
  "isValidPassword coerce password =
     and_then (get_prop password ''length'') (\<lambda>len.
     and_then (ToNumber coerce len) (\<lambda>n. Inr (js_ge n (Num 6))))"

subsection \<open>validateRegisterInput\<close>

record RegisterData =
  reg_name :: jsval
  reg_email :: jsval
  reg_password :: jsval
  reg_role :: jsval
  reg_adminSecretCode :: jsval

text \<open>
  Each block of the function (\<open>// Validate name\<close>, \<open>// Validate email\<close>, ...) is a
  definition of its own: the errors it pushes, or the exception it throws.
\<close>

definition check_register_name :: "jsval \<Rightarrow> error + ValidationError list" where
  "check_register_name v =
     (if \<not> truthy v then Inr [err ''name'' ''Name is required'']
      else on_string v (\<lambda>s. Inr
        (if length (trim s) = 0 then [err ''name'' ''Name is required'']
         else if length (trim s) < 2 then [err ''name'' ''Name must be at least 2 characters long'']
         else if length (trim s) > 50 then [err ''name'' ''Name cannot exceed 50 characters'']
         else [])))"

definition check_register_email :: "jsval \<Rightarrow> error + ValidationError list" where
  "check_register_email v =
     (if \<not> truthy v then Inr [err ''email'' ''Email is required'']
      else on_string v (\<lambda>s. Inr
        (if length (trim s) = 0 then [err ''email'' ''Email is required'']
         else if \<not> isValidEmail s then [err ''email'' ''Please enter a valid email address'']
         else [])))"

definition check_register_password ::
  "(jsval \<Rightarrow> error + jsnum) \<Rightarrow> jsval \<Rightarrow> error + ValidationError list" where
  "check_register_password coerce v =
     (if \<not> truthy v then Inr [err ''password'' ''Password is required'']
      else and_then (get_prop v ''length'') (\<lambda>len.
        if len = JNum (Num 0) then Inr [err ''password'' ''Password is required'']
        else and_then (isValidPassword coerce v) (\<lambda>ok. Inr
          (if \<not> ok then [err ''password'' ''Password must be at least 6 characters long'']
           else []))))"

definition check_register_role :: "jsval \<Rightarrow> error + ValidationError list" where
  "check_register_role v =
     Inr (if \<not> truthy v then [err ''role'' ''Role is required'']
          else if \<not> array_includes [''user'', ''admin''] v
          then [err ''role'' ''Role must be either user or admin'']
          else [])"

definition check_register_adminSecretCode ::
  "jsval \<Rightarrow> jsval \<Rightarrow> string \<Rightarrow> error + ValidationError list" where
  "check_register_adminSecretCode role v adminSecretCode =
     (if role = JStr ''admin''
      then
        (if \<not> truthy v
         then Inr [err ''adminSecretCode'' ''Admin secret code is required for admin registration'']
         else on_string v (\<lambda>s. Inr
           (if length (trim s) = 0
            then [err ''adminSecretCode'' ''Admin secret code is required for admin registration'']
            else if s \<noteq> adminSecretCode
            then [err ''adminSecretCode'' ''Invalid admin secret code'']
            else [])))
      else Inr [])"

definition validateRegisterInput ::
  "(jsval \<Rightarrow> error + jsnum) \<Rightarrow> RegisterData \<Rightarrow> string \<Rightarrow> error + ValidationResult" where
  "validateRegisterInput coerce data adminSecretCode =
     and_then
       (collect
         [ check_register_name (reg_name data),
           check_register_email (reg_email data),
           check_register_password coerce (reg_password data),
           check_register_role (reg_role data),
           check_register_adminSecretCode (reg_role data) (reg_adminSecretCode data) adminSecretCode ])
       (\<lambda>es. Inr (result es))"

subsection \<open>validateLoginInput\<close>





subsection \<open>validateMenuItemInput\<close>

record MenuItemData =
  mi_name :: jsval
  mi_description :: jsval
  mi_price :: jsval
  mi_image :: jsval
  mi_category :: jsval
  mi_available :: jsval

definition validCategories :: "string list" where
  "validCategories = [''Pizza'', ''Burgers'', ''Pasta'', ''Sides'', ''Drinks'', ''Desserts'']"

text \<open>\<open>\d+(\.\d{1,2})?\<close>\<close>

definition priceRegex :: rexp where
  "priceRegex =
     Times (many1 (Atom is_digit)) (opt (Times (lit CHR ''.'') (between 1 2 (Atom is_digit))))"

text \<open>The characters of the price pattern.\<close>

definition price_char :: "char \<Rightarrow> bool" where
  "price_char c = (is_digit c \<or> c = CHR ''.'')"

definition check_menu_name :: "jsval \<Rightarrow> error + ValidationError list" where
  "check_menu_name v =
     (if \<not> truthy v then Inr [err ''name'' ''Item name is required'']
      else on_string v (\<lambda>s. Inr
        (if length (trim s) = 0 then [err ''name'' ''Item name is required'']
         else if length (trim s) < 2 then [err ''name'' ''Name must be at least 2 characters long'']
         else if length (trim s) > 100 then [err ''name'' ''Name cannot exceed 100 characters'']
         else [])))"

definition check_menu_description :: "jsval \<Rightarrow> error + ValidationError list" where
  "check_menu_description v =
     (if \<not> truthy v then Inr [err ''description'' ''Description is required'']
      else on_string v (\<lambda>s. Inr
        (if length (trim s) = 0 then [err ''description'' ''Description is required'']
         else if length (trim s) < 10
         then [err ''description'' ''Description must be at least 10 characters long'']
         else if length (trim s) > 500
         then [err ''description'' ''Description cannot exceed 500 characters'']
         else [])))"

definition check_menu_price :: "jsval \<Rightarrow> error + ValidationError list" where
  "check_menu_price v =
     Inr (if v = JUndefined \<or> v = JNull then [err ''price'' ''Price is required'']
          else
            (case v of
               JNum n \<Rightarrow>
                 if js_lt n (Num 0) then [err ''price'' ''Price cannot be negative'']
                 else if \<not> regex_test priceRegex (Number_toString n)
                 then [err ''price'' ''Price must have at most 2 decimal places'']
                 else []
             | _ \<Rightarrow> [err ''price'' ''Price must be a number'']))"

definition check_menu_image :: "jsval \<Rightarrow> error + ValidationError list" where
  "check_menu_image v =
     (if \<not> truthy v then Inr [err ''image'' ''Image URL is required'']
      else on_string v (\<lambda>s. Inr
        (if length (trim s) = 0 then [err ''image'' ''Image URL is required''] else [])))"

definition check_menu_category :: "jsval \<Rightarrow> error + ValidationError list" where
  "check_menu_category v =
     (if \<not> truthy v then Inr [err ''category'' ''Category is required'']
      else on_string v (\<lambda>s. Inr
        (if length (trim s) = 0 then [err ''category'' ''Category is required'']
         else if \<not> array_includes validCategories v
         then [err ''category'' (''Category must be one of: '' @ join '', '' validCategories)]
         else [])))"

definition validateMenuItemInput :: "MenuItemData \<Rightarrow> error + ValidationResult" where
  "validateMenuItemInput data =
     and_then
       (collect
         [ check_menu_name (mi_name data),
           check_menu_description (mi_description data),
           check_menu_price (mi_price data),
           check_menu_image (mi_image data),
           check_menu_category (mi_category data) ])
       (\<lambda>es. Inr (result es))"

subsection \<open>validateOrderInput\<close>














subsection \<open>validateOrderStatus\<close>

definition validStatuses :: "string list" where
  "validStatuses = [''Order Received'', ''Preparing'', ''Out for Delivery'', ''Delivered'', ''Cancelled'']"

definition validateOrderStatus :: "jsval \<Rightarrow> ValidationResult" where
  "validateOrderStatus status =
     result
       (if \<not> truthy status then [err ''status'' ''Status is required'']
        else if \<not> array_includes validStatuses status
        then [err ''status'' (''Status must be one of: '' @ join '', '' validStatuses)]
        else [])"

section \<open>models/Order.ts\<close>

record OrderItem =
  menuItemId :: string
  item_name :: string
  price :: jsnum
  quantity :: jsnum

record DeliveryDetails =
  delivery_name :: string
  address :: string
  phone :: string

record Order =
  userId :: string
  items :: "OrderItem list"
  totalAmount :: jsnum
  deliveryDetails :: DeliveryDetails
  status :: string

text \<open>
  The \<open>pre('save')\<close> hook: the total is recomputed from the items and rounded to cents.
\<close>

definition line_total :: "jsnum \<Rightarrow> OrderItem \<Rightarrow> jsnum" where
  "line_total acc item = js_add acc (js_mul (price item) (quantity item))"

definition round_cents :: "jsnum \<Rightarrow> jsnum" where
  "round_cents amount = js_div (Math_round (js_mul amount (Num 100))) 100"

definition pre_save :: "Order \<Rightarrow> Order" where
  "pre_save order = order\<lparr>totalAmount := round_cents (foldl line_total (Num 0) (items order))\<rparr>"

text \<open>
  The orders collection, by \<open>_id\<close>. \<open>Order.findById\<close> is the lookup; \<open>order.save()\<close>
  runs the hook and stores the document. The timestamps are not modelled.
\<close>

type_synonym orders = "string \<rightharpoonup> Order"

definition save :: "orders \<Rightarrow> string \<Rightarrow> Order \<Rightarrow> orders \<times> Order" where
  "save db ident order = (let saved = pre_save order in (db(ident \<mapsto> saved), saved))"

section \<open>controllers/orderController.ts: the order lifecycle\<close>

text \<open>\<open>req.user\<close>, set by the authentication middleware.\<close>

record AuthUser =
  auth_userId :: string
  auth_role :: string

text \<open>
  A handler returns the collection it leaves behind and either the error it threw or
  the order of its response. A handler that throws has not saved. In
  \<open>updateOrderStatus\<close> a status that has passed \<open>validateOrderStatus\<close> is one of the
  five strings, so \<open>order.status = status\<close> assigns a string and the last branch of
  the definition is never taken.
\<close>

definition detail :: "ValidationError \<Rightarrow> string" where
  "detail e = field e @ '': '' @ message e"

definition updateOrderStatus :: "orders \<Rightarrow> string \<Rightarrow> jsval \<Rightarrow> orders \<times> (error + Order)" where
  "updateOrderStatus db ident new_status =
     (let validation = validateOrderStatus new_status in
      if \<not> valid validation
      then (db, Inl (ApiError ''Validation failed'' 400 (map detail (errors validation))))
      else
        (case db ident of
           None \<Rightarrow> (db, Inl (ApiError ''Order not found'' 404 []))
         | Some order \<Rightarrow>
             if status order = ''Delivered'' \<or> status order = ''Cancelled''
             then (db, Inl (ApiError (''Cannot update status of '' @ toLowerCase (status order) @ '' orders'') 400 []))
             else
               (case new_status of
                  JStr s \<Rightarrow> (case save db ident (order\<lparr>status := s\<rparr>) of (db', saved) \<Rightarrow> (db', Inr saved))
                | _ \<Rightarrow> (db, Inl TypeError))))"

definition cancelOrder :: "orders \<Rightarrow> AuthUser option \<Rightarrow> string \<Rightarrow> orders \<times> (error + Order)" where
  "cancelOrder db user ident =
     (case user of
        None \<Rightarrow> (db, Inl (ApiError ''Not authenticated'' 401 []))
      | Some u \<Rightarrow>
          (case db ident of
             None \<Rightarrow> (db, Inl (ApiError ''Order not found'' 404 []))
           | Some order \<Rightarrow>
               if userId order \<noteq> auth_userId u
               then (db, Inl (ApiError ''Access denied'' 403 []))
               else if status order = ''Delivered''
               then (db, Inl (ApiError ''Cannot cancel delivered orders'' 400 []))
               else if status order = ''Cancelled''
               then (db, Inl (ApiError ''Order is already cancelled'' 400 []))
               else (case save db ident (order\<lparr>status := ''Cancelled''\<rparr>) of (db', saved) \<Rightarrow> (db', Inr saved))))"

subsection \<open>createOrder\<close>

text \<open>
  The menu collection (models/MenuItem.ts). A stored price has passed the schema's
  validator, so it is a finite number. Ids are in the form \<open>_id.toString()\<close> prints.
\<close>

record MenuItem =
  menu_id :: string
  menu_name :: string
  menu_price :: rat
  available :: bool


definition item_value :: "OrderItem \<Rightarrow> jsval" where
  "item_value item =
     JObj [(''menuItemId'', JStr (menuItemId item)), (''name'', JStr (item_name item)),
           (''price'', JNum (price item)), (''quantity'', JNum (quantity item))]"



text \<open>
  The callback of \<open>items.map\<close> that builds \<open>enrichedItems\<close>: name and price come from
  the first fetched menu item with the line's id; the empty string and \<open>0\<close> stand in
  when there is none or when the stored value is falsy.
\<close>

definition enrich :: "MenuItem list \<Rightarrow> OrderItem \<Rightarrow> OrderItem" where
  "enrich menuItems item =
     (let menuItem = find (\<lambda>mi. menu_id mi = menuItemId item) menuItems
      in \<lparr>menuItemId = menuItemId item,
          item_name =
            (case menuItem of
               None \<Rightarrow> []
             | Some mi \<Rightarrow> if menu_name mi \<noteq> [] then menu_name mi else []),
          price =
            (case menuItem of
               None \<Rightarrow> Num 0
             | Some mi \<Rightarrow> if menu_price mi \<noteq> 0 then Num (menu_price mi) else Num 0),
          quantity = quantity item\<rparr>)"




text \<open>The two requests that change the status of a stored order, and runs of them.\<close>

datatype request =
    AdminUpdate string jsval
  | UserCancel "AuthUser option" string

fun handle :: "orders \<Rightarrow> request \<Rightarrow> orders" where
  "handle db (AdminUpdate ident new_status) = fst (updateOrderStatus db ident new_status)"
| "handle db (UserCancel user ident) = fst (cancelOrder db user ident)"

definition run :: "orders \<Rightarrow> request list \<Rightarrow> orders" where
  "run db reqs = foldl handle db reqs"

section \<open>Inputs of the declared types\<close>











text \<open>A check that does not throw and reports at most one error.\<close>

definition at_most_one :: "error + ValidationError list \<Rightarrow> bool" where
  "at_most_one c = (case c of Inl e \<Rightarrow> False | Inr es \<Rightarrow> length es \<le> 1)"

section \<open>Example data\<close>

definition example_order :: "string \<Rightarrow> Order" where
  "example_order st =
     \<lparr>userId = ''u1'',
      items = [\<lparr>menuItemId = ''m1'', item_name = ''Margherita'', price = Num 10, quantity = Num 2\<rparr>],
      totalAmount = Num 20,
      deliveryDetails = \<lparr>delivery_name = ''Ann'', address = ''1 Main Street'', phone = ''1234567890''\<rparr>,
      status = st\<rparr>"

definition example_db :: "string \<Rightarrow> orders" where
  "example_db st = [''o1'' \<mapsto> example_order st]"

definition example_user :: AuthUser where
  "example_user = \<lparr>auth_userId = ''u1'', auth_role = ''user''\<rparr>"

definition example_coerce :: "jsval \<Rightarrow> error + jsnum" where
  "example_coerce v = Inr NaN"

definition example_registration :: RegisterData where
  "example_registration =
     \<lparr>reg_name = JStr ''John Doe'', reg_email = JStr ''john@example.com'',
      reg_password = JStr ''password123'', reg_role = JStr ''user'',
      reg_adminSecretCode = JUndefined\<rparr>"

definition example_menu_item :: MenuItemData where
  "example_menu_item =
     \<lparr>mi_name = JStr ''Margherita Pizza'',
      mi_description = JStr ''Classic Italian pizza with tomato sauce'',
      mi_price = JNum (Num (1299 / 100)),
      mi_image = JStr ''https://example.com/pizza.jpg'',
      mi_category = JStr ''Pizza'',
      mi_available = JBool True\<rparr>"




section \<open>The order lifecycle\<close>

lemma floor_rat_numeral [simp]: "\<lfloor>numeral a / numeral b :: rat\<rfloor> = numeral a div numeral b"
  using floor_divide_of_int_eq [of "numeral a" "numeral b", where ?'a = rat] by simp

lemma pre_save_fields [simp]:
  "status (pre_save order) = status order"
  "userId (pre_save order) = userId order"
  "items (pre_save order) = items order"
  "deliveryDetails (pre_save order) = deliveryDetails order"
  by (simp_all add: pre_save_def)

lemma pre_save_example [simp]: "pre_save (example_order st) = example_order st"
  by (simp add: pre_save_def example_order_def line_total_def round_cents_def)

lemma validateOrderStatus_valid:
  "valid (validateOrderStatus s) \<longleftrightarrow> (\<exists>t \<in> set validStatuses. s = JStr t)"
  by (auto simp: validateOrderStatus_def result_def array_includes_def validStatuses_def)

lemma join_sublist: "v \<in> set xs \<Longrightarrow> sublist v (join sep xs)"
proof (induction sep xs rule: join.induct)
  case (3 sep x y ys)
  then show ?case
    by (auto simp: sublist_append)
qed auto

lemma handle_keeps_delivered:
  assumes "db ident = Some order" "status order = ''Delivered''"
  shows "handle db req ident = Some order"
proof (cases req)
  case (AdminUpdate i s)
  then show ?thesis using assms
    by (auto simp: updateOrderStatus_def save_def Let_def split: option.splits jsval.splits)
next
  case (UserCancel u i)
  then show ?thesis using assms
    by (auto simp: cancelOrder_def save_def Let_def split: option.splits)
qed

text \<open>
  C1, as stated, does not hold. The specification says that no status update and no
  cancellation moves an order that is Out for Delivery or Delivered into Cancelled. The
  admin status update does: it only refuses orders that are Delivered or Cancelled, so
  an order that is Out for Delivery becomes Cancelled when the admin asks for it.
\<close>

theorem cancelled_from_out_for_delivery:
  "map_option status (example_db ''Out for Delivery'' ''o1'') = Some ''Out for Delivery''
   \<and> map_option status
        (run (example_db ''Out for Delivery'') [AdminUpdate ''o1'' (JStr ''Cancelled'')] ''o1'')
       = Some ''Cancelled''"
  by (simp add: run_def updateOrderStatus_def validateOrderStatus_def result_def
      array_includes_def validStatuses_def save_def Let_def example_db_def example_order_def)

text \<open>
  C1 (amended). Cancelled is not reachable from Delivered: whatever status updates and
  cancellations are run, by whatever callers and on whatever ids, an order that is
  Delivered stays as it is stored, so it is never moved into Cancelled. From every
  status other than Delivered and Cancelled, Out for Delivery included, the admin status
  update moves the order into Cancelled when asked to.
\<close>

theorem cancelled_reachability:
  assumes "db ident = Some order"
  shows "(status order = ''Delivered'' \<longrightarrow> run db reqs ident = Some order)
    \<and> (status order \<noteq> ''Delivered'' \<and> status order \<noteq> ''Cancelled'' \<longrightarrow>
         map_option status (run db [AdminUpdate ident (JStr ''Cancelled'')] ident) = Some ''Cancelled'')"
proof -
  have final: "run db reqs ident = Some order" if "status order = ''Delivered''"
    using assms that unfolding run_def
    by (induction reqs arbitrary: db) (simp_all add: handle_keeps_delivered)
  have admin: "map_option status (run db [AdminUpdate ident (JStr ''Cancelled'')] ident) = Some ''Cancelled''"
    if "status order \<noteq> ''Delivered'' \<and> status order \<noteq> ''Cancelled''"
    using assms that
    by (simp add: run_def updateOrderStatus_def validateOrderStatus_def result_def
        array_includes_def validStatuses_def save_def Let_def)
  show ?thesis using final admin by blast
qed

theorem cancelled_reachability_witness:
  "run (example_db ''Delivered'')
     [UserCancel (Some example_user) ''o1'', AdminUpdate ''o1'' (JStr ''Cancelled'')] ''o1''
   = Some (example_order ''Delivered'')
   \<and> map_option status
        (run (example_db ''Preparing'') [AdminUpdate ''o1'' (JStr ''Cancelled'')] ''o1'')
      = Some ''Cancelled''"
  using cancelled_reachability [of "example_db ''Delivered''" "''o1''" "example_order ''Delivered''"]
    cancelled_reachability [of "example_db ''Preparing''" "''o1''" "example_order ''Preparing''"]
  by (simp add: example_db_def example_order_def)

text \<open>
  C2, as stated, does not hold. The specification says that every target status outside
  the five values is refused with a message that lists the five. A missing or empty
  status is refused with \<open>Status is required\<close>, which lists none of them.
\<close>

theorem empty_status_not_enumerated:
  "updateOrderStatus (example_db ''Preparing'') ''o1'' (JStr [])
     = (example_db ''Preparing'', Inl (ApiError ''Validation failed'' 400 [''status: Status is required'']))
   \<and> \<not> sublist ''Delivered'' ''status: Status is required''"
proof -
  have "\<not> sublist ''Delivered'' ''status: Status is required''"
    by code_simp
  then show ?thesis
    by (simp add: updateOrderStatus_def validateOrderStatus_def result_def err_def detail_def)
qed

text \<open>
  C2 (amended). For an admin status update of an existing order: a falsy target status
  (missing, \<open>null\<close>, empty) is refused with \<open>Status is required\<close>; any other target that is
  not one of the five values is refused with the message that lists all five; in both
  cases the collection is unchanged. For a target among the five: if the order is
  Delivered or Cancelled the request is refused and the collection is unchanged;
  otherwise the order is saved with the target status, whatever its current status.
\<close>

theorem updateOrderStatus_contract:
  assumes "db ident = Some order"
  shows "(\<not> truthy s \<longrightarrow>
            updateOrderStatus db ident s
              = (db, Inl (ApiError ''Validation failed'' 400 [''status: Status is required''])))
    \<and> (truthy s \<and> s \<notin> JStr ` set validStatuses \<longrightarrow>
            updateOrderStatus db ident s
              = (db, Inl (ApiError ''Validation failed'' 400
                   [''status: Status must be one of: Order Received, Preparing, Out for Delivery, Delivered, Cancelled''])))
    \<and> (\<forall>t \<in> set validStatuses.
          sublist t ''status: Status must be one of: Order Received, Preparing, Out for Delivery, Delivered, Cancelled''
          \<and> (s = JStr t \<longrightarrow>
               (if status order = ''Delivered'' \<or> status order = ''Cancelled''
                then \<exists>msg. updateOrderStatus db ident s = (db, Inl (ApiError msg 400 []))
                else \<exists>saved. updateOrderStatus db ident s = (db(ident \<mapsto> saved), Inr saved)
                       \<and> saved = pre_save (order\<lparr>status := t\<rparr>) \<and> status saved = t)))"
proof -
  have msg: "''status: Status must be one of: Order Received, Preparing, Out for Delivery, Delivered, Cancelled''
      = ''status: Status must be one of: '' @ join '', '' validStatuses"
    by (simp add: validStatuses_def)
  have enum: "\<forall>t \<in> set validStatuses.
      sublist t ''status: Status must be one of: Order Received, Preparing, Out for Delivery, Delivered, Cancelled''"
    unfolding msg using join_sublist [of _ validStatuses "'', ''"]
    by (metis sublist_append)
  have rest: "(\<not> truthy s \<longrightarrow>
            updateOrderStatus db ident s
              = (db, Inl (ApiError ''Validation failed'' 400 [''status: Status is required''])))
    \<and> (truthy s \<and> s \<notin> JStr ` set validStatuses \<longrightarrow>
            updateOrderStatus db ident s
              = (db, Inl (ApiError ''Validation failed'' 400
                   [''status: Status must be one of: Order Received, Preparing, Out for Delivery, Delivered, Cancelled''])))
    \<and> (\<forall>t \<in> set validStatuses. s = JStr t \<longrightarrow>
               (if status order = ''Delivered'' \<or> status order = ''Cancelled''
                then \<exists>msg. updateOrderStatus db ident s = (db, Inl (ApiError msg 400 []))
                else \<exists>saved. updateOrderStatus db ident s = (db(ident \<mapsto> saved), Inr saved)
                       \<and> saved = pre_save (order\<lparr>status := t\<rparr>) \<and> status saved = t))"
    using assms
    by (auto simp: updateOrderStatus_def validateOrderStatus_def result_def array_includes_def
        validStatuses_def err_def detail_def save_def Let_def)
  show ?thesis using enum rest by blast
qed

theorem updateOrderStatus_contract_witness:
  "updateOrderStatus (example_db ''Order Received'') ''o1'' (JStr ''Delivered'')
     = ((example_db ''Order Received'')(''o1'' \<mapsto> example_order ''Delivered''), Inr (example_order ''Delivered''))
   \<and> updateOrderStatus (example_db ''Order Received'') ''o1'' (JNum (Num 7))
     = (example_db ''Order Received'', Inl (ApiError ''Validation failed'' 400
          [''status: Status must be one of: Order Received, Preparing, Out for Delivery, Delivered, Cancelled'']))
   \<and> updateOrderStatus (example_db ''Order Received'') ''o1'' JUndefined
     = (example_db ''Order Received'', Inl (ApiError ''Validation failed'' 400 [''status: Status is required'']))
   \<and> (\<exists>msg. updateOrderStatus (example_db ''Cancelled'') ''o1'' (JStr ''Preparing'')
     = (example_db ''Cancelled'', Inl (ApiError msg 400 [])))"
  using updateOrderStatus_contract [of "example_db ''Order Received''" "''o1''" "example_order ''Order Received''" "JStr ''Delivered''"]
    updateOrderStatus_contract [of "example_db ''Order Received''" "''o1''" "example_order ''Order Received''" "JNum (Num 7)"]
    updateOrderStatus_contract [of "example_db ''Order Received''" "''o1''" "example_order ''Order Received''" "JUndefined"]
    updateOrderStatus_contract [of "example_db ''Cancelled''" "''o1''" "example_order ''Cancelled''" "JStr ''Preparing''"]
  by (simp add: example_db_def example_order_def validStatuses_def pre_save_def line_total_def round_cents_def image_iff)

text \<open>
  C3. For a cancellation of an existing order by an authenticated caller: it is refused
  when the caller is not the owner; refused when the order is Delivered; refused with
  its own error, \<open>Order is already cancelled\<close>, when the order is Cancelled; a refusal
  leaves the collection unchanged; in every other case the order is saved with status
  Cancelled, its owner, items and delivery details as they were.
\<close>

theorem cancelOrder_contract:
  assumes "db ident = Some order"
  shows "(userId order \<noteq> auth_userId u \<longrightarrow>
            cancelOrder db (Some u) ident = (db, Inl (ApiError ''Access denied'' 403 [])))
    \<and> (userId order = auth_userId u \<and> status order = ''Delivered'' \<longrightarrow>
            cancelOrder db (Some u) ident = (db, Inl (ApiError ''Cannot cancel delivered orders'' 400 [])))
    \<and> (userId order = auth_userId u \<and> status order = ''Cancelled'' \<longrightarrow>
            cancelOrder db (Some u) ident = (db, Inl (ApiError ''Order is already cancelled'' 400 [])))
    \<and> (userId order = auth_userId u \<and> status order \<noteq> ''Delivered'' \<and> status order \<noteq> ''Cancelled'' \<longrightarrow>
            (\<exists>saved. cancelOrder db (Some u) ident = (db(ident \<mapsto> saved), Inr saved)
               \<and> saved = pre_save (order\<lparr>status := ''Cancelled''\<rparr>) \<and> status saved = ''Cancelled''
               \<and> userId saved = userId order \<and> items saved = items order
               \<and> deliveryDetails saved = deliveryDetails order))"
  using assms by (simp add: cancelOrder_def save_def Let_def)

theorem cancelOrder_contract_witness:
  "cancelOrder (example_db ''Order Received'') (Some example_user) ''o1''
     = ((example_db ''Order Received'')(''o1'' \<mapsto> example_order ''Cancelled''), Inr (example_order ''Cancelled''))
   \<and> cancelOrder (example_db ''Delivered'') (Some example_user) ''o1''
     = (example_db ''Delivered'', Inl (ApiError ''Cannot cancel delivered orders'' 400 []))
   \<and> cancelOrder (example_db ''Cancelled'') (Some example_user) ''o1''
     = (example_db ''Cancelled'', Inl (ApiError ''Order is already cancelled'' 400 []))
   \<and> cancelOrder (example_db ''Preparing'') (Some (example_user\<lparr>auth_userId := ''u2''\<rparr>)) ''o1''
     = (example_db ''Preparing'', Inl (ApiError ''Access denied'' 403 []))"
  using cancelOrder_contract [of "example_db ''Order Received''" "''o1''" "example_order ''Order Received''" example_user]
    cancelOrder_contract [of "example_db ''Delivered''" "''o1''" "example_order ''Delivered''" example_user]
    cancelOrder_contract [of "example_db ''Cancelled''" "''o1''" "example_order ''Cancelled''" example_user]
    cancelOrder_contract [of "example_db ''Preparing''" "''o1''" "example_order ''Preparing''" "example_user\<lparr>auth_userId := ''u2''\<rparr>"]
  by (simp add: example_db_def example_order_def example_user_def pre_save_def line_total_def round_cents_def)

section \<open>Validation\<close>

lemma and_then_simps [simp]:
  "and_then (Inr x) f = f x" "and_then (Inl e) f = Inl e"
  by (simp_all add: and_then_def)

lemma and_then_Inr_iff: "and_then m f = Inr y \<longleftrightarrow> (\<exists>x. m = Inr x \<and> f x = Inr y)"
  by (cases m) simp_all

lemma on_string_simps [simp]:
  "on_string (JStr s) f = f s"
  by (simp add: on_string_def)

lemma on_string_Inr_iff: "on_string v f = Inr y \<longleftrightarrow> (\<exists>s. v = JStr s \<and> f s = Inr y)"
  by (cases v) (simp_all add: on_string_def)

lemma collect_Cons_Inr_iff:
  "collect (c # cs) = Inr es \<longleftrightarrow> (\<exists>e1 e2. c = Inr e1 \<and> collect cs = Inr e2 \<and> es = e1 @ e2)"
  by (cases c; cases "collect cs") auto

lemma collect_all:
  assumes "collect cs = Inr es" and "\<And>xs e. Inr xs \<in> set cs \<Longrightarrow> e \<in> set xs \<Longrightarrow> P e"
  shows "\<forall>e \<in> set es. P e"
  using assms
proof (induction cs arbitrary: es)
  case Nil
  then show ?case by simp
next
  case (Cons c cs)
  from Cons.prems(1) obtain e1 e2 where c: "c = Inr e1" and cs: "collect cs = Inr e2" and es: "es = e1 @ e2"
    unfolding collect_Cons_Inr_iff by blast
  have "\<forall>e \<in> set e2. P e" using Cons.IH [OF cs] Cons.prems(2) by (meson list.set_intros(2))
  moreover have "\<forall>e \<in> set e1. P e" using Cons.prems(2) [of e1] c by simp
  ultimately show ?case using es by auto
qed

lemma check_register_name_field: "check_register_name v = Inr es \<Longrightarrow> e \<in> set es \<Longrightarrow> field e = ''name''"
  by (auto simp: check_register_name_def on_string_Inr_iff err_def split: if_splits)

lemma check_register_email_field: "check_register_email v = Inr es \<Longrightarrow> e \<in> set es \<Longrightarrow> field e = ''email''"
  by (auto simp: check_register_email_def on_string_Inr_iff err_def split: if_splits)

lemma check_register_password_field:
  "check_register_password coerce v = Inr es \<Longrightarrow> e \<in> set es \<Longrightarrow> field e = ''password''"
  by (auto simp: check_register_password_def and_then_Inr_iff err_def split: if_splits)

lemma check_register_role_field: "check_register_role v = Inr es \<Longrightarrow> e \<in> set es \<Longrightarrow> field e = ''role''"
  by (auto simp: check_register_role_def err_def split: if_splits)

text \<open>
  C10. When the submitted role is not \<open>'admin'\<close>, the result of \<open>validateRegisterInput\<close>
  (errors or exception) is the same whatever the \<open>adminSecretCode\<close> field holds and
  whatever secret is configured, and no error it returns is on the field
  \<open>adminSecretCode\<close>.
\<close>

theorem adminSecretCode_only_for_admin:
  assumes "reg_role data \<noteq> JStr ''admin''"
  shows "validateRegisterInput coerce (data\<lparr>reg_adminSecretCode := a\<rparr>) secret
           = validateRegisterInput coerce (data\<lparr>reg_adminSecretCode := b\<rparr>) secret'
    \<and> (\<forall>r. validateRegisterInput coerce data secret = Inr r \<longrightarrow>
           (\<forall>e \<in> set (errors r). field e \<noteq> ''adminSecretCode''))"
proof -
  have skip: "check_register_adminSecretCode (reg_role data) v s = Inr []" for v s
    using assms by (simp add: check_register_adminSecretCode_def)
  have same: "validateRegisterInput coerce (data\<lparr>reg_adminSecretCode := a\<rparr>) secret
           = validateRegisterInput coerce (data\<lparr>reg_adminSecretCode := b\<rparr>) secret'"
    by (simp add: validateRegisterInput_def skip)
  have none: "\<forall>e \<in> set (errors r). field e \<noteq> ''adminSecretCode''"
    if r: "validateRegisterInput coerce data secret = Inr r" for r
  proof -
    from r obtain es where es: "collect
         [ check_register_name (reg_name data),
           check_register_email (reg_email data),
           check_register_password coerce (reg_password data),
           check_register_role (reg_role data),
           check_register_adminSecretCode (reg_role data) (reg_adminSecretCode data) secret ] = Inr es"
      and res: "r = result es"
      by (auto simp: validateRegisterInput_def and_then_Inr_iff)
    have "\<forall>e \<in> set es. field e \<noteq> ''adminSecretCode''"
      by (rule collect_all [OF es])
        (auto simp: skip dest: check_register_name_field [OF sym] check_register_email_field [OF sym]
          check_register_password_field [OF sym] check_register_role_field [OF sym])
    then show ?thesis by (simp add: res result_def)
  qed
  show ?thesis using same none by blast
qed

theorem adminSecretCode_only_for_admin_witness:
  "validateRegisterInput example_coerce (example_registration\<lparr>reg_adminSecretCode := JStr ''guess''\<rparr>) ''123456''
     = validateRegisterInput example_coerce (example_registration\<lparr>reg_adminSecretCode := JUndefined\<rparr>) ''123456''
   \<and> validateRegisterInput example_coerce example_registration ''123456'' = Inr \<lparr>valid = True, errors = []\<rparr>"
proof -
  have role: "reg_role example_registration \<noteq> JStr ''admin''"
    by (simp add: example_registration_def)
  have ok: "validateRegisterInput example_coerce example_registration ''123456'' = Inr \<lparr>valid = True, errors = []\<rparr>"
    by code_simp
  show ?thesis
    using adminSecretCode_only_for_admin [OF role, of example_coerce "JStr ''guess''" "''123456''" JUndefined "''123456''"] ok
    by simp
qed

lemma check_menu_name_field: "check_menu_name v = Inr es \<Longrightarrow> e \<in> set es \<Longrightarrow> field e = ''name''"
  by (auto simp: check_menu_name_def on_string_Inr_iff err_def split: if_splits)

lemma check_menu_description_field:
  "check_menu_description v = Inr es \<Longrightarrow> e \<in> set es \<Longrightarrow> field e = ''description''"
  by (auto simp: check_menu_description_def on_string_Inr_iff err_def split: if_splits)

lemma check_menu_price_field: "check_menu_price v = Inr es \<Longrightarrow> e \<in> set es \<Longrightarrow> field e = ''price''"
  by (auto simp: check_menu_price_def err_def split: if_splits jsval.splits)

lemma check_menu_image_field: "check_menu_image v = Inr es \<Longrightarrow> e \<in> set es \<Longrightarrow> field e = ''image''"
  by (auto simp: check_menu_image_def on_string_Inr_iff err_def split: if_splits)

lemma check_menu_category_field:
  "check_menu_category v = Inr es \<Longrightarrow> e \<in> set es \<Longrightarrow> field e = ''category''"
  by (auto simp: check_menu_category_def on_string_Inr_iff err_def split: if_splits)

lemma trim_valid_category: "c \<in> set validCategories \<Longrightarrow> trim c \<noteq> []"
  by (auto simp: validCategories_def trim_def is_space_def)

lemma check_menu_category_accepts:
  "check_menu_category v = Inr es \<Longrightarrow> es = [] \<longleftrightarrow> v \<in> JStr ` set validCategories"
  by (auto simp: check_menu_category_def on_string_Inr_iff err_def array_includes_def
      dest: trim_valid_category split: if_splits) (simp add: validCategories_def)

text \<open>
  C6 (amended). Whenever \<open>validateMenuItemInput\<close> returns, the category field has no
  error if and only if the category is one of the six strings of \<open>validCategories\<close>:
  Pizza, Burgers, Pasta, Sides, Drinks, Desserts.
\<close>

theorem category_enumeration:
  assumes "validateMenuItemInput data = Inr r"
  shows "((\<forall>e \<in> set (errors r). field e \<noteq> ''category'') \<longleftrightarrow> mi_category data \<in> JStr ` set validCategories)
    \<and> distinct validCategories \<and> length validCategories = 6"
proof -
  from assms obtain e1 e2 e3 e4 e5 where
    c1: "check_menu_name (mi_name data) = Inr e1" and
    c2: "check_menu_description (mi_description data) = Inr e2" and
    c3: "check_menu_price (mi_price data) = Inr e3" and
    c4: "check_menu_image (mi_image data) = Inr e4" and
    c5: "check_menu_category (mi_category data) = Inr e5" and
    r: "errors r = e1 @ e2 @ e3 @ e4 @ e5"
    by (auto simp: validateMenuItemInput_def and_then_Inr_iff collect_Cons_Inr_iff result_def)
  have others: "\<forall>e \<in> set (e1 @ e2 @ e3 @ e4). field e \<noteq> ''category''"
    using check_menu_name_field [OF c1] check_menu_description_field [OF c2]
      check_menu_price_field [OF c3] check_menu_image_field [OF c4]
    by auto
  have "(\<forall>e \<in> set e5. field e \<noteq> ''category'') \<longleftrightarrow> e5 = []"
    using check_menu_category_field [OF c5] by (cases e5) auto
  then have "(\<forall>e \<in> set (errors r). field e \<noteq> ''category'') \<longleftrightarrow> e5 = []"
    using others r by auto
  then show ?thesis
    using check_menu_category_accepts [OF c5] by (simp add: validCategories_def)
qed

theorem category_enumeration_witness:
  "validateMenuItemInput example_menu_item = Inr \<lparr>valid = True, errors = []\<rparr>
   \<and> mi_category example_menu_item \<in> JStr ` set validCategories"
proof -
  have ok: "validateMenuItemInput example_menu_item = Inr \<lparr>valid = True, errors = []\<rparr>"
    by code_simp
  show ?thesis
    using category_enumeration [OF ok] ok by simp
qed

text \<open>
  C6, as stated, does not hold. The specification says that the validator accepts
  exactly seven categories. Its list has six: \<open>Other\<close>, the seventh value of the
  schema's enumeration in models/MenuItem.ts, is answered with a category error.
\<close>

theorem category_other_rejected:
  "validateMenuItemInput (example_menu_item\<lparr>mi_category := JStr ''Other''\<rparr>)
     = Inr \<lparr>valid = False,
            errors = [\<lparr>field = ''category'',
                       message = ''Category must be one of: Pizza, Burgers, Pasta, Sides, Drinks, Desserts''\<rparr>]\<rparr>
   \<and> length validCategories = 6"
  by code_simp

section \<open>Patterns\<close>

lemma conc_Nil: "[] \<in> conc A B \<longleftrightarrow> [] \<in> A \<and> [] \<in> B"
  by (auto simp: conc_def)

lemma conc_Cons:
  "c # s \<in> conc A B \<longleftrightarrow> ([] \<in> A \<and> c # s \<in> B) \<or> (\<exists>u v. s = u @ v \<and> c # u \<in> A \<and> v \<in> B)"
  by (auto simp: conc_def Cons_eq_append_conv)


lemma conc_mem: "s \<in> conc A B \<longleftrightarrow> (\<exists>u v. s = u @ v \<and> u \<in> A \<and> v \<in> B)"
  by (auto simp: conc_def)

lemma star_unfold_Cons:
  assumes "w \<in> star A" and "w = c # s"
  shows "\<exists>u v. s = u @ v \<and> c # u \<in> A \<and> v \<in> star A"
  using assms
proof (induction arbitrary: s rule: star.induct)
  case star_empty
  then show ?case by simp
next
  case (star_more xs ys)
  show ?case
  proof (cases xs)
    case Nil
    with star_more show ?thesis by simp
  next
    case (Cons x xs')
    with star_more.prems have "x = c" and "s = xs' @ ys" by simp_all
    with star_more.hyps(1,2) Cons show ?thesis by blast
  qed
qed

lemma star_Cons:
  "c # s \<in> star A \<longleftrightarrow> (\<exists>u v. s = u @ v \<and> c # u \<in> A \<and> v \<in> star A)"
proof
  assume "c # s \<in> star A"
  then show "\<exists>u v. s = u @ v \<and> c # u \<in> A \<and> v \<in> star A"
    by (rule star_unfold_Cons) simp
next
  assume "\<exists>u v. s = u @ v \<and> c # u \<in> A \<and> v \<in> star A"
  then obtain u v where "s = u @ v" "c # u \<in> A" "v \<in> star A" by blast
  then show "c # s \<in> star A"
    using star_more [of "c # u" A v] by simp
qed

lemma nullable_lang: "nullable r \<longleftrightarrow> [] \<in> lang r"
  by (induction r) (auto simp: conc_Nil intro: star_empty)

lemma lang_deriv: "s \<in> lang (deriv c r) \<longleftrightarrow> c # s \<in> lang r"
proof (induction r arbitrary: s)
  case (Times r1 r2)
  have "s \<in> lang (deriv c (Times r1 r2)) \<longleftrightarrow>
      (\<exists>u v. s = u @ v \<and> c # u \<in> lang r1 \<and> v \<in> lang r2) \<or> (nullable r1 \<and> c # s \<in> lang r2)"
    using Times by (auto simp: conc_mem)
  also have "\<dots> \<longleftrightarrow> c # s \<in> lang (Times r1 r2)"
    unfolding lang.simps conc_Cons nullable_lang by blast
  finally show ?case .
next
  case (Star r)
  have "s \<in> lang (deriv c (Star r)) \<longleftrightarrow> (\<exists>u v. s = u @ v \<and> c # u \<in> lang r \<and> v \<in> star (lang r))"
    using Star by (auto simp: conc_mem)
  also have "\<dots> \<longleftrightarrow> c # s \<in> lang (Star r)"
    unfolding lang.simps star_Cons by blast
  finally show ?case .
qed auto

lemma regex_test_lang: "regex_test r s \<longleftrightarrow> s \<in> lang r"
  by (induction s arbitrary: r) (simp_all add: nullable_lang lang_deriv)

lemma star_all:
  assumes "w \<in> star A" and "\<And>x. x \<in> A \<Longrightarrow> \<forall>c \<in> set x. P c"
  shows "\<forall>c \<in> set w. P c"
  using assms by (induction rule: star.induct) auto

lemma lang_atoms_all: "s \<in> lang r \<Longrightarrow> atoms_all P r \<Longrightarrow> \<forall>c \<in> set s. P c"
proof (induction r arbitrary: s)
  case (Star r)
  show ?case
    by (rule star_all [of s "lang r"]) (use Star in auto)
qed (auto simp: conc_def)

section \<open>isValidEmail\<close>


lemma at_most_numeral: "at_most (numeral k) r = Plus One (Times r (at_most (pred_numeral k) r))"
  by (simp add: numeral_eq_Suc)








section \<open>The menu item price\<close>

lemma digit_char_is_digit: "d < 10 \<Longrightarrow> is_digit (digit_char d)"
proof -
  have "\<forall>d < 10. is_digit (digit_char d)"
    by (simp add: numeral_eq_Suc All_less_Suc digit_char_def is_digit_def)
  then show "d < 10 \<Longrightarrow> is_digit (digit_char d)" by simp
qed

lemma digits_are_digits: "\<forall>c \<in> set (digits n). is_digit c"
proof (induction n rule: digits.induct)
  case (1 n)
  show ?case
  proof (cases "n < 10")
    case True
    then show ?thesis by (subst digits.simps) (simp add: digit_char_is_digit)
  next
    case False
    then show ?thesis using 1 by (subst digits.simps) (simp add: digit_char_is_digit)
  qed
qed

lemma frac_digits_short:
  assumes "length (frac_digits (Suc (Suc (Suc k))) f) \<le> 2"
  shows "\<exists>m::int. f * 100 = of_int m"
proof (cases "f = 0")
  case True
  then show ?thesis by (intro exI [of _ 0]) simp
next
  case False
  define f1 where "f1 = f * 10 - of_int \<lfloor>f * 10\<rfloor>"
  from False assms have len1: "length (frac_digits (Suc (Suc k)) f1) \<le> 1"
    by (simp add: f1_def)
  show ?thesis
  proof (cases "f1 = 0")
    case True
    then have "f * 100 = of_int (10 * \<lfloor>f * 10\<rfloor>)" by (simp add: f1_def)
    then show ?thesis by blast
  next
    case f1: False
    define f2 where "f2 = f1 * 10 - of_int \<lfloor>f1 * 10\<rfloor>"
    from f1 len1 have "frac_digits (Suc k) f2 = []"
      by (simp add: f2_def)
    then have "f2 = 0" by (simp split: if_splits)
    then have "f * 100 = of_int (\<lfloor>f1 * 10\<rfloor> + 10 * \<lfloor>f * 10\<rfloor>)"
      by (simp add: f2_def f1_def algebra_simps)
    then show ?thesis by blast
  qed
qed

lemma frac_digits_empty: "frac_digits (Suc k) f = [] \<Longrightarrow> f = 0"
  by (simp split: if_splits)

lemma atoms_priceRegex: "atoms_all price_char priceRegex"
  by (simp add: priceRegex_def many1_def opt_def lit_def between_def price_char_def)

lemma priceRegex_shape:
  assumes "s \<in> lang priceRegex"
  shows "\<exists>ds rest. s = ds @ rest \<and> (\<forall>c \<in> set ds. is_digit c)
           \<and> (rest = [] \<or> (\<exists>f. rest = CHR ''.'' # f \<and> length f \<le> 2))"
proof -
  from assms obtain ds rest where s: "s = ds @ rest"
    and ds: "ds \<in> lang (many1 (Atom is_digit))"
    and rest: "rest \<in> lang (opt (Times (lit CHR ''.'') (between 1 2 (Atom is_digit))))"
    by (auto simp: priceRegex_def conc_mem)
  have "atoms_all is_digit (many1 (Atom is_digit))" by (simp add: many1_def)
  from lang_atoms_all [OF ds this] have "\<forall>c \<in> set ds. is_digit c" .
  moreover from rest have "rest = [] \<or> (\<exists>f. rest = CHR ''.'' # f \<and> length f \<le> 2)"
    by (auto simp: opt_def lit_def between_def conc_mem)
  ultimately show ?thesis using s by blast
qed

lemma exponent_form_rejected: "\<not> regex_test priceRegex (exponent_form ds ex)"
proof
  assume "regex_test priceRegex (exponent_form ds ex)"
  then have mem: "exponent_form ds ex \<in> lang priceRegex" by (simp add: regex_test_lang)
  have "\<not> nullable priceRegex" by (simp add: priceRegex_def many1_def)
  then have "[] \<notin> lang priceRegex" by (simp add: nullable_lang)
  with mem have "ds \<noteq> []" by (auto simp: exponent_form_def)
  then have "CHR ''e'' \<in> set (exponent_form ds ex)"
    by (cases ds) (simp_all add: exponent_form_def)
  moreover have "\<not> price_char CHR ''e''" by (simp add: price_char_def is_digit_def)
  ultimately show False using lang_atoms_all [OF mem atoms_priceRegex] by blast
qed

lemma split_at_first:
  "c \<notin> set xs \<Longrightarrow> c \<notin> set ys \<Longrightarrow> xs @ c # us = ys @ c # vs \<Longrightarrow> xs = ys \<and> us = vs"
proof (induction xs arbitrary: ys)
  case Nil
  then show ?case by (cases ys) auto
next
  case (Cons x xs)
  then show ?case by (cases ys) auto
qed

lemma positive_toString_accepted:
  assumes "regex_test priceRegex (positive_toString x)"
  shows "\<exists>m::int. x * 100 = of_int m"
proof -
  define ip where "ip = digits (nat \<lfloor>x\<rfloor>)"
  define fp where "fp = frac_digits 400 (x - of_int \<lfloor>x\<rfloor>)"
  have str: "positive_toString x = ip @ (if fp = [] then [] else CHR ''.'' # fp)"
    using assms exponent_form_rejected
    by (auto simp: positive_toString_def Let_def ip_def fp_def split: if_splits)
  have fuel: "(400::nat) = Suc (Suc (Suc 397))" by simp
  have "\<exists>m::int. (x - of_int \<lfloor>x\<rfloor>) * 100 = of_int m"
  proof (cases "fp = []")
    case True
    then have "x - of_int \<lfloor>x\<rfloor> = 0"
      unfolding fp_def fuel by (rule frac_digits_empty)
    then show ?thesis by (intro exI [of _ 0]) simp
  next
    case False
    from assms str False have "ip @ CHR ''.'' # fp \<in> lang priceRegex"
      by (simp add: regex_test_lang)
    from priceRegex_shape [OF this] obtain ds rest where
      eq: "ip @ CHR ''.'' # fp = ds @ rest" and ds: "\<forall>c \<in> set ds. is_digit c"
      and rest: "rest = [] \<or> (\<exists>f. rest = CHR ''.'' # f \<and> length f \<le> 2)"
      by blast
    have nodot: "\<not> is_digit CHR ''.''" by (simp add: is_digit_def)
    have ip: "CHR ''.'' \<notin> set ip" using digits_are_digits [of "nat \<lfloor>x\<rfloor>"] nodot by (auto simp: ip_def)
    have dsd: "CHR ''.'' \<notin> set ds" using ds nodot by auto
    have "rest \<noteq> []"
    proof
      assume "rest = []"
      with eq have "CHR ''.'' \<in> set ds" by (metis append_Nil2 in_set_conv_decomp)
      with dsd show False by simp
    qed
    with rest obtain f where f: "rest = CHR ''.'' # f" "length f \<le> 2" by blast
    from eq f(1) ip dsd have "fp = f"
      using split_at_first [of "CHR ''.''" ip ds fp f] by simp
    with f(2) have "length (frac_digits (Suc (Suc (Suc 397))) (x - of_int \<lfloor>x\<rfloor>)) \<le> 2"
      by (simp add: fp_def)
    then show ?thesis by (rule frac_digits_short)
  qed
  then obtain m :: int where "(x - of_int \<lfloor>x\<rfloor>) * 100 = of_int m" by blast
  then have "x * 100 = of_int (m + 100 * \<lfloor>x\<rfloor>)" by (simp add: algebra_simps)
  then show ?thesis by blast
qed

lemma Number_toString_accepted:
  assumes "\<not> js_lt n (Num 0)" and "regex_test priceRegex (Number_toString n)"
  shows "\<exists>x m. n = Num x \<and> 0 \<le> x \<and> x * 100 = of_int m"
proof (cases n)
  case (Num x)
  with assms(1) have x: "0 \<le> x" by simp
  show ?thesis
  proof (cases "x = 0")
    case True
    with Num show ?thesis by simp
  next
    case False
    with x Num assms(2) have "regex_test priceRegex (positive_toString x)" by simp
    from positive_toString_accepted [OF this] Num x show ?thesis by blast
  qed
next
  case NaN
  have "\<not> regex_test priceRegex ''NaN''" by code_simp
  with NaN assms(2) show ?thesis by simp
next
  case PosInf
  have "\<not> regex_test priceRegex ''Infinity''" by code_simp
  with PosInf assms(2) show ?thesis by simp
next
  case NegInf
  with assms(1) show ?thesis by simp
qed

lemma check_menu_price_none:
  "check_menu_price v = Inr es \<Longrightarrow>
     es = [] \<longleftrightarrow> (\<exists>n. v = JNum n \<and> \<not> js_lt n (Num 0) \<and> regex_test priceRegex (Number_toString n))"
  by (cases v) (auto simp: check_menu_price_def split: if_splits)

lemma check_menu_price_12999:
  "check_menu_price (JNum (Num (12999 / 1000)))
     = Inr [err ''price'' ''Price must have at most 2 decimal places'']"
  by code_simp

lemma check_menu_price_1299: "check_menu_price (JNum (Num (1299 / 100))) = Inr []"
  by code_simp

text \<open>
  C7. Whenever \<open>validateMenuItemInput\<close> returns, the price field has no error exactly
  when the price is a number, is not negative, and its \<open>toString()\<close> matches
  \<open>^\d+(\.\d{1,2})?$\<close>; a price without error is a non-negative number with at most
  two decimal places; the price 12.999 gets the error \<open>Price must have at most 2
  decimal places\<close>, and the price 12.99 gets none.
\<close>

theorem price_two_decimals:
  assumes "validateMenuItemInput data = Inr r"
  shows "((\<forall>e \<in> set (errors r). field e \<noteq> ''price'') \<longleftrightarrow>
            (\<exists>n. mi_price data = JNum n \<and> \<not> js_lt n (Num 0)
                 \<and> regex_test priceRegex (Number_toString n)))
    \<and> ((\<forall>e \<in> set (errors r). field e \<noteq> ''price'') \<longrightarrow>
            (\<exists>x m. mi_price data = JNum (Num x) \<and> 0 \<le> x \<and> x * 100 = of_int m))
    \<and> (mi_price data = JNum (Num (12999 / 1000)) \<longrightarrow>
            err ''price'' ''Price must have at most 2 decimal places'' \<in> set (errors r))
    \<and> (mi_price data = JNum (Num (1299 / 100)) \<longrightarrow>
            (\<forall>e \<in> set (errors r). field e \<noteq> ''price''))"
proof -
  from assms obtain e1 e2 e3 e4 e5 where
    c1: "check_menu_name (mi_name data) = Inr e1" and
    c2: "check_menu_description (mi_description data) = Inr e2" and
    c3: "check_menu_price (mi_price data) = Inr e3" and
    c4: "check_menu_image (mi_image data) = Inr e4" and
    c5: "check_menu_category (mi_category data) = Inr e5" and
    r: "errors r = e1 @ e2 @ e3 @ e4 @ e5"
    by (auto simp: validateMenuItemInput_def and_then_Inr_iff collect_Cons_Inr_iff result_def)
  have others: "\<forall>e \<in> set (e1 @ e2 @ e4 @ e5). field e \<noteq> ''price''"
    using check_menu_name_field [OF c1] check_menu_description_field [OF c2]
      check_menu_image_field [OF c4] check_menu_category_field [OF c5]
    by auto
  have "(\<forall>e \<in> set e3. field e \<noteq> ''price'') \<longleftrightarrow> e3 = []"
    using check_menu_price_field [OF c3] by (cases e3) auto
  then have none: "(\<forall>e \<in> set (errors r). field e \<noteq> ''price'') \<longleftrightarrow> e3 = []"
    using others r by auto
  have pattern: "(\<forall>e \<in> set (errors r). field e \<noteq> ''price'') \<longleftrightarrow>
            (\<exists>n. mi_price data = JNum n \<and> \<not> js_lt n (Num 0)
                 \<and> regex_test priceRegex (Number_toString n))"
    using none check_menu_price_none [OF c3] by simp
  have decimals: "\<exists>x m. mi_price data = JNum (Num x) \<and> 0 \<le> x \<and> x * 100 = of_int m"
    if "\<forall>e \<in> set (errors r). field e \<noteq> ''price''"
    using that pattern Number_toString_accepted by blast
  have bad: "err ''price'' ''Price must have at most 2 decimal places'' \<in> set (errors r)"
    if "mi_price data = JNum (Num (12999 / 1000))"
    using that c3 r by (auto simp: check_menu_price_12999)
  have good: "\<forall>e \<in> set (errors r). field e \<noteq> ''price''"
    if "mi_price data = JNum (Num (1299 / 100))"
    using that c3 none by (simp add: check_menu_price_1299)
  show ?thesis using pattern decimals bad good by blast
qed

theorem price_two_decimals_witness:
  "validateMenuItemInput example_menu_item = Inr \<lparr>valid = True, errors = []\<rparr>
   \<and> validateMenuItemInput (example_menu_item\<lparr>mi_price := JNum (Num (12999 / 1000))\<rparr>)
       = Inr \<lparr>valid = False, errors = [err ''price'' ''Price must have at most 2 decimal places'']\<rparr>
   \<and> (\<exists>m. (1299 / 100 :: rat) * 100 = of_int m)"
proof -
  have ok: "validateMenuItemInput example_menu_item = Inr \<lparr>valid = True, errors = []\<rparr>"
    by code_simp
  have bad: "validateMenuItemInput (example_menu_item\<lparr>mi_price := JNum (Num (12999 / 1000))\<rparr>)
       = Inr \<lparr>valid = False, errors = [err ''price'' ''Price must have at most 2 decimal places'']\<rparr>"
    by code_simp
  have price: "mi_price example_menu_item = JNum (Num (1299 / 100))"
    by (simp add: example_menu_item_def)
  show ?thesis
    using price_two_decimals [OF ok] price_two_decimals [OF bad] ok bad price
    by auto
qed

section \<open>createOrder\<close>





lemma get_prop_item_value [simp]:
  "get_prop (item_value item) ''menuItemId'' = Inr (JStr (menuItemId item))"
  "get_prop (item_value item) ''name'' = Inr (JStr (item_name item))"
  "get_prop (item_value item) ''price'' = Inr (JNum (price item))"
  "get_prop (item_value item) ''quantity'' = Inr (JNum (quantity item))"
  by (simp_all add: item_value_def own_def)



lemma enrich_fields [simp]:
  "menuItemId (enrich ms item) = menuItemId item"
  "quantity (enrich ms item) = quantity item"
  by (simp_all add: enrich_def Let_def)













section \<open>The validators on typed and on malformed input\<close>

lemma at_most_one_Inr [simp]: "at_most_one (Inr es) \<longleftrightarrow> length es \<le> 1"
  by (simp add: at_most_one_def)

lemma at_most_one_Inl [simp]: "\<not> at_most_one (Inl e)"
  by (simp add: at_most_one_def)

lemma at_most_one_if [simp]:
  "at_most_one (if b then x else y) \<longleftrightarrow> (if b then at_most_one x else at_most_one y)"
  by simp






































end
